theory Spec2Isabelle
  imports Complex_Main
begin

section \<open>JavaScript numbers\<close>

text \<open>
  The calculator of \<^verbatim>\<open>services/hvacCalculator\<close> computes on JavaScript values of
  type \<^verbatim>\<open>number\<close>. A \<^verbatim>\<open>number\<close> is a finite value, one of the two infinities, or
  NaN, and no arithmetic operation or \<^verbatim>\<open>Math\<close> function ever throws: a division by
  zero gives an infinity or NaN, the logarithm of zero gives minus infinity, the
  logarithm of a negative number gives NaN.

  The model keeps exactly this case structure. Finite values are real numbers. The four
  arithmetic operations, the logarithm and the square root are exact on finite operands:
  their rounding is not modelled, and neither is their overflow, which needs operands
  far beyond every range the application offers. The exponential is different: the
  Magnus formula has a pole at \<open>- 243.5\<close> degrees, and near it \<^verbatim>\<open>Math.exp\<close> leaves the
  64-bit range, so \<open>Math_exp\<close> returns infinity and zero where a correctly rounded 64-bit
  exponential does, and is exact in between. The sign of zero is not modelled (every zero
  divisor of this program is the result of \<open>x - x\<close>, \<open>x + (- x)\<close> or of a product with the
  positive zero of \<^verbatim>\<open>Math.exp\<close>).
\<close>

datatype number = Fin real | PInf | NInf | NaN

fun num_neg :: "number \<Rightarrow> number" where
  "num_neg (Fin x) = Fin (- x)"
| "num_neg PInf = NInf"
| "num_neg NInf = PInf"
| "num_neg NaN = NaN"

fun num_add :: "number \<Rightarrow> number \<Rightarrow> number" where
  "num_add (Fin x) (Fin y) = Fin (x + y)"
| "num_add (Fin x) PInf = PInf"
| "num_add (Fin x) NInf = NInf"
| "num_add PInf (Fin y) = PInf"
| "num_add PInf PInf = PInf"
| "num_add PInf NInf = NaN"
| "num_add NInf (Fin y) = NInf"
| "num_add NInf PInf = NaN"
| "num_add NInf NInf = NInf"
| "num_add NaN b = NaN"
| "num_add a NaN = NaN"

definition num_sub :: "number \<Rightarrow> number \<Rightarrow> number" where
  "num_sub a b = num_add a (num_neg b)"

text \<open>An infinity of the sign of \<open>x\<close>; \<open>0 * \<infinity>\<close> and \<open>0 / 0\<close> are NaN.\<close>

definition signed_inf :: "real \<Rightarrow> number" where
  "signed_inf x = (if 0 < x then PInf else if x < 0 then NInf else NaN)"

fun num_mul :: "number \<Rightarrow> number \<Rightarrow> number" where
  "num_mul (Fin x) (Fin y) = Fin (x * y)"
| "num_mul (Fin x) PInf = signed_inf x"
| "num_mul (Fin x) NInf = signed_inf (- x)"
| "num_mul PInf (Fin y) = signed_inf y"
| "num_mul PInf PInf = PInf"
| "num_mul PInf NInf = NInf"
| "num_mul NInf (Fin y) = signed_inf (- y)"
| "num_mul NInf PInf = NInf"
| "num_mul NInf NInf = PInf"
| "num_mul NaN b = NaN"
| "num_mul a NaN = NaN"

fun num_div :: "number \<Rightarrow> number \<Rightarrow> number" where
  "num_div (Fin x) (Fin y) = (if y = 0 then signed_inf x else Fin (x / y))"
| "num_div (Fin x) PInf = Fin 0"
| "num_div (Fin x) NInf = Fin 0"
| "num_div PInf (Fin y) = (if 0 \<le> y then PInf else NInf)"
| "num_div NInf (Fin y) = (if 0 \<le> y then NInf else PInf)"
| "num_div PInf PInf = NaN"
| "num_div PInf NInf = NaN"
| "num_div NInf PInf = NaN"
| "num_div NInf NInf = NaN"
| "num_div NaN b = NaN"
| "num_div a NaN = NaN"

text \<open>The comparisons \<^verbatim>\<open><\<close>, \<^verbatim>\<open><=\<close>, \<^verbatim>\<open>>\<close>, \<^verbatim>\<open>>=\<close>: false as soon as one side is NaN.\<close>

fun num_lt :: "number \<Rightarrow> number \<Rightarrow> bool" where
  "num_lt (Fin x) (Fin y) = (x < y)"
| "num_lt (Fin x) PInf = True"
| "num_lt (Fin x) NInf = False"
| "num_lt PInf b = False"
| "num_lt NInf (Fin y) = True"
| "num_lt NInf PInf = True"
| "num_lt NInf NInf = False"
| "num_lt NaN b = False"
| "num_lt a NaN = False"

fun num_le :: "number \<Rightarrow> number \<Rightarrow> bool" where
  "num_le (Fin x) (Fin y) = (x \<le> y)"
| "num_le (Fin x) PInf = True"
| "num_le (Fin x) NInf = False"
| "num_le PInf PInf = True"
| "num_le PInf (Fin y) = False"
| "num_le PInf NInf = False"
| "num_le NInf (Fin y) = True"
| "num_le NInf PInf = True"
| "num_le NInf NInf = True"
| "num_le NaN b = False"
| "num_le a NaN = False"

definition num_gt :: "number \<Rightarrow> number \<Rightarrow> bool" where
  "num_gt a b = num_lt b a"

definition num_ge :: "number \<Rightarrow> number \<Rightarrow> bool" where
  "num_ge a b = num_le b a"

fun isFinite :: "number \<Rightarrow> bool" where
  "isFinite (Fin x) = True"
| "isFinite PInf = False"
| "isFinite NInf = False"
| "isFinite NaN = False"

fun Math_abs :: "number \<Rightarrow> number" where
  "Math_abs (Fin x) = Fin \<bar>x\<bar>"
| "Math_abs PInf = PInf"
| "Math_abs NInf = PInf"
| "Math_abs NaN = NaN"

text \<open>
  \<^verbatim>\<open>Math.exp\<close>. With round-to-nearest, a result of \<open>2^1024 - 2^970\<close> or more (half a unit
  above the largest finite value) becomes infinity, and a result of \<open>2^-1075\<close> or less
  (half the smallest positive value) becomes 0.
\<close>

definition exp_overflow :: real where
  "exp_overflow = 2 ^ 1024 - 2 ^ 970"

definition exp_underflow :: real where
  "exp_underflow = 1 / 2 ^ 1075"

fun Math_exp :: "number \<Rightarrow> number" where
  "Math_exp (Fin x) =
     (if exp_overflow \<le> exp x then PInf
      else if exp x \<le> exp_underflow then Fin 0
      else Fin (exp x))"
| "Math_exp PInf = PInf"
| "Math_exp NInf = Fin 0"
| "Math_exp NaN = NaN"

fun Math_log :: "number \<Rightarrow> number" where
  "Math_log (Fin x) = (if 0 < x then Fin (ln x) else if x = 0 then NInf else NaN)"
| "Math_log PInf = PInf"
| "Math_log NInf = NaN"
| "Math_log NaN = NaN"

fun Math_sqrt :: "number \<Rightarrow> number" where
  "Math_sqrt (Fin x) = (if 0 \<le> x then Fin (sqrt x) else NaN)"
| "Math_sqrt PInf = PInf"
| "Math_sqrt NInf = NaN"
| "Math_sqrt NaN = NaN"

text \<open>\<^verbatim>\<open>Math.max\<close> and \<^verbatim>\<open>Math.min\<close> return NaN as soon as one argument is NaN.\<close>

definition Math_max :: "number \<Rightarrow> number \<Rightarrow> number" where
  "Math_max a b = (if a = NaN \<or> b = NaN then NaN else if num_le a b then b else a)"

definition Math_min :: "number \<Rightarrow> number \<Rightarrow> number" where
  "Math_min a b = (if a = NaN \<or> b = NaN then NaN else if num_le a b then a else b)"

section \<open>The data model (\<^verbatim>\<open>types.ts\<close>)\<close>

text \<open>
  The six inputs are finite numbers: the input widget rejects a text that does not parse
  to a number and clamps every value to a finite range before it reaches the calculator.
  The results are JavaScript numbers and may be infinite or NaN.
\<close>

record HvacInputs =
  outsideTemp :: real
  outsideHumidity :: real
  volumeFlow :: real
  targetTemp :: real
  supplyTemp :: real
  returnTemp :: real

record HvacResults =
  sensiblePower :: number
  latentPower :: number
  totalPower :: number
  waterVolumeFlow :: number
  finalHumidity :: number
  isHeating :: bool
  dewPoint :: number
  initialAbsoluteHumidity :: number
  finalAbsoluteHumidity :: number
  efficiency :: number
  recommendedPipeDiameter :: number

section \<open>The calculator (\<^verbatim>\<open>services/hvacCalculator\<close>)\<close>

definition AIR_DENSITY :: real where "AIR_DENSITY = 1.204"
definition SPECIFIC_HEAT_AIR :: real where "SPECIFIC_HEAT_AIR = 1.005"
definition SPECIFIC_HEAT_WATER :: real where "SPECIFIC_HEAT_WATER = 4.186"
definition WATER_DENSITY :: real where "WATER_DENSITY = 1000"
definition ATMOSPHERIC_PRESSURE :: real where "ATMOSPHERIC_PRESSURE = 1013.25"
definition LATENT_HEAT_VAPORIZATION :: real where "LATENT_HEAT_VAPORIZATION = 2260"
definition RECOMMENDED_WATER_VELOCITY :: real where "RECOMMENDED_WATER_VELOCITY = 1.5"

definition calculateSaturationVaporPressure :: "number \<Rightarrow> number" where
  "calculateSaturationVaporPressure temp =
     num_mul (Fin 6.112)
       (Math_exp (num_div (num_mul (Fin 17.67) temp) (num_add temp (Fin 243.5))))"

definition calculateDewPoint :: "number \<Rightarrow> number" where
  "calculateDewPoint vaporPressure =
     (let numerator = num_mul (Fin 243.5) (Math_log (num_div vaporPressure (Fin 6.112)));
          denominator = num_sub (Fin 17.67) (Math_log (num_div vaporPressure (Fin 6.112)))
      in num_div numerator denominator)"

definition calculateAbsoluteHumidity :: "number \<Rightarrow> number" where
  "calculateAbsoluteHumidity vaporPressure =
     num_div (num_mul (Fin 622) vaporPressure)
       (num_sub (Fin ATMOSPHERIC_PRESSURE) vaporPressure)"

text \<open>
  The body of \<^verbatim>\<open>calculateHvacPerformance\<close> is wrapped in \<^verbatim>\<open>try\<close>/\<^verbatim>\<open>catch\<close>, and the
  handler returns \<^verbatim>\<open>null\<close>, modelled as \<open>None\<close>. Nothing in the body can throw: its
  argument has the type \<^verbatim>\<open>HvacInputs\<close>, a record of six numbers, it reads the six fields
  and computes on numbers, and no test raises an error. So every path of the model ends
  in \<open>Some\<close>. The variables the source assigns in the branches of the humidity
  calculation (\<^verbatim>\<open>finalHumidity\<close>, \<^verbatim>\<open>finalAbsoluteHumidity\<close>, \<^verbatim>\<open>latentPower_kW\<close>) are the
  triple the conditional returns; the two variables of the water calculation are a pair.
\<close>

definition calculateHvacPerformance :: "HvacInputs \<Rightarrow> HvacResults option" where
  "calculateHvacPerformance inputs =
     (let airMassFlow_kg_per_s =
            num_div (num_mul (Fin (volumeFlow inputs)) (Fin AIR_DENSITY)) (Fin 3600);
          deltaT_air = num_sub (Fin (targetTemp inputs)) (Fin (outsideTemp inputs));
          isHeating' = num_gt deltaT_air (Fin 0);
          sensiblePower_kW =
            num_mul (num_mul airMassFlow_kg_per_s (Fin SPECIFIC_HEAT_AIR)) deltaT_air;
          initialSatPressure = calculateSaturationVaporPressure (Fin (outsideTemp inputs));
          initialVaporPressure =
            num_mul (num_div (Fin (outsideHumidity inputs)) (Fin 100)) initialSatPressure;
          dewPoint' = calculateDewPoint initialVaporPressure;
          initialAbsoluteHumidity' = calculateAbsoluteHumidity initialVaporPressure;
          (finalHumidity0, finalAbsoluteHumidity', latentPower_kW) =
            (if isHeating' then
               (let finalSatPressure = calculateSaturationVaporPressure (Fin (targetTemp inputs))
                in (num_mul (num_div initialVaporPressure finalSatPressure) (Fin 100),
                    initialAbsoluteHumidity', Fin 0))
             else if num_ge (Fin (targetTemp inputs)) dewPoint' then
               (let finalSatPressure = calculateSaturationVaporPressure (Fin (targetTemp inputs))
                in (num_mul (num_div initialVaporPressure finalSatPressure) (Fin 100),
                    initialAbsoluteHumidity', Fin 0))
             else
               (let finalSatPressure = calculateSaturationVaporPressure (Fin (targetTemp inputs));
                    finalAbsoluteHumidity1 = calculateAbsoluteHumidity finalSatPressure;
                    deltaAbsoluteHumidity_g_per_kg =
                      num_sub initialAbsoluteHumidity' finalAbsoluteHumidity1;
                    waterCondensed_kg_per_s =
                      num_mul airMassFlow_kg_per_s
                        (num_div deltaAbsoluteHumidity_g_per_kg (Fin 1000))
                in (Fin 100, finalAbsoluteHumidity1,
                    num_neg (Math_abs
                      (num_mul waterCondensed_kg_per_s (Fin LATENT_HEAT_VAPORIZATION))))));
          finalHumidity' = Math_max (Fin 0) (Math_min finalHumidity0 (Fin 100));
          totalPower_kW = num_add sensiblePower_kW latentPower_kW;
          deltaT_water =
            Math_abs (num_sub (Fin (supplyTemp inputs)) (Fin (returnTemp inputs)));
          (waterVolumeFlow_m3_per_h, recommendedPipeDiameter') =
            (if num_gt deltaT_water (Fin 0) then
               (let waterMassFlow_kg_per_s =
                      num_div (Math_abs totalPower_kW)
                        (num_mul (Fin SPECIFIC_HEAT_WATER) deltaT_water);
                    waterVolumeFlow1 =
                      num_div (num_mul waterMassFlow_kg_per_s (Fin 3600)) (Fin WATER_DENSITY)
                in if isFinite waterVolumeFlow1 then
                     (let waterFlow_m3_per_s = num_div waterVolumeFlow1 (Fin 3600);
                          area_m2 = num_div waterFlow_m3_per_s (Fin RECOMMENDED_WATER_VELOCITY);
                          diameter_m =
                            Math_sqrt (num_div (num_mul (Fin 4) area_m2) (Fin pi))
                      in (waterVolumeFlow1, num_mul diameter_m (Fin 1000)))
                   else (waterVolumeFlow1, PInf))
             else (PInf, PInf));
          potential_deltaT = num_sub (Fin (supplyTemp inputs)) (Fin (outsideTemp inputs));
          validScenario =
            ((isHeating' \<and> num_gt potential_deltaT (Fin 0))
             \<or> (\<not> isHeating' \<and> num_lt potential_deltaT (Fin 0)));
          efficiency0 =
            (if validScenario \<and> num_gt (Math_abs potential_deltaT) (Fin (1 / 10 ^ 6)) then
               num_div (num_sub (Fin (targetTemp inputs)) (Fin (outsideTemp inputs)))
                 potential_deltaT
             else Fin 0);
          efficiency' = Math_max (Fin 0) (Math_min efficiency0 (Fin 1))
      in Some \<lparr> sensiblePower = sensiblePower_kW,
                latentPower = latentPower_kW,
                totalPower = totalPower_kW,
                waterVolumeFlow = waterVolumeFlow_m3_per_h,
                finalHumidity = finalHumidity',
                isHeating = isHeating',
                dewPoint = dewPoint',
                initialAbsoluteHumidity = initialAbsoluteHumidity',
                finalAbsoluteHumidity = finalAbsoluteHumidity',
                efficiency = efficiency',
                recommendedPipeDiameter = recommendedPipeDiameter' \<rparr>)"

section \<open>Names for intermediate values and concrete inputs\<close>

text \<open>
  Two local variables of \<^verbatim>\<open>calculateHvacPerformance\<close> that the properties below refer to,
  as functions of the input: \<^verbatim>\<open>airMassFlow_kg_per_s\<close> and \<^verbatim>\<open>initialVaporPressure\<close>.
\<close>

definition airMassFlow :: "HvacInputs \<Rightarrow> number" where
  "airMassFlow inputs =
     num_div (num_mul (Fin (volumeFlow inputs)) (Fin AIR_DENSITY)) (Fin 3600)"

definition initialVaporPressure :: "HvacInputs \<Rightarrow> number" where
  "initialVaporPressure inputs =
     num_mul (num_div (Fin (outsideHumidity inputs)) (Fin 100))
       (calculateSaturationVaporPressure (Fin (outsideTemp inputs)))"

text \<open>
  The initial state of \<^verbatim>\<open>App.tsx\<close>: heating 2000 cubic metres of air per hour from 10 to
  22 degrees, with water at 60 and 40 degrees.
\<close>

definition defaultInputs :: HvacInputs where
  "defaultInputs =
     \<lparr> outsideTemp = 10, outsideHumidity = 60, volumeFlow = 2000,
       targetTemp = 22, supplyTemp = 60, returnTemp = 40 \<rparr>"


text \<open>
  Cooling air from 244 to 250 degrees below zero. Half a degree below the pole of the
  Magnus formula the exponent is \<open>8622.96\<close> and \<^verbatim>\<open>Math.exp\<close> overflows.
\<close>

definition nearPoleInputs :: HvacInputs where
  "nearPoleInputs =
     \<lparr> outsideTemp = - 244, outsideHumidity = 50, volumeFlow = 2000,
       targetTemp = - 250, supplyTemp = 6, returnTemp = 12 \<rparr>"


text \<open>
  The Magnus formula in exact arithmetic. It is the value of
  \<^verbatim>\<open>calculateSaturationVaporPressure\<close> wherever \<^verbatim>\<open>Math.exp\<close> stays inside the 64-bit range.
\<close>

definition p_sat :: "real \<Rightarrow> real" where
  "p_sat T = 6.112 * exp (17.67 * T / (T + 243.5))"

text \<open>
  The input takes the third branch of the humidity calculation (cooling with
  dehumidification): not heating, and \<^verbatim>\<open>targetTemp >= dewPoint\<close> is false.
\<close>

definition condensing :: "HvacInputs \<Rightarrow> bool" where
  "condensing i \<longleftrightarrow>
     \<not> outsideTemp i < targetTemp i
     \<and> \<not> num_ge (Fin (targetTemp i)) (calculateDewPoint (initialVaporPressure i))"

section \<open>The fields of the result\<close>

lemma calculateHvacPerformance_returns: "\<exists>r. calculateHvacPerformance i = Some r"
  by (simp add: calculateHvacPerformance_def Let_def split_def)

lemma isHeating_eq:
  "calculateHvacPerformance i = Some r \<Longrightarrow> isHeating r = (outsideTemp i < targetTemp i)"
  by (auto simp: calculateHvacPerformance_def Let_def split_def num_gt_def num_sub_def)

lemma sensiblePower_eq:
  "calculateHvacPerformance i = Some r \<Longrightarrow>
   sensiblePower r = Fin (volumeFlow i * 1.204 / 3600 * 1.005 * (targetTemp i - outsideTemp i))"
  by (auto simp: calculateHvacPerformance_def Let_def split_def num_sub_def
        AIR_DENSITY_def SPECIFIC_HEAT_AIR_def)

lemma totalPower_eq:
  "calculateHvacPerformance i = Some r \<Longrightarrow>
   totalPower r = num_add (sensiblePower r) (latentPower r)"
  by (auto simp: calculateHvacPerformance_def Let_def split_def)

lemma dewPoint_eq:
  "calculateHvacPerformance i = Some r \<Longrightarrow>
   dewPoint r = calculateDewPoint (initialVaporPressure i)"
  by (auto simp: calculateHvacPerformance_def Let_def split_def initialVaporPressure_def)

lemma initialAbsoluteHumidity_eq:
  "calculateHvacPerformance i = Some r \<Longrightarrow>
   initialAbsoluteHumidity r = calculateAbsoluteHumidity (initialVaporPressure i)"
  by (auto simp: calculateHvacPerformance_def Let_def split_def initialVaporPressure_def)

lemma efficiency_eq:
  "calculateHvacPerformance i = Some r \<Longrightarrow>
   efficiency r =
     (if ((isHeating r \<and> 0 < supplyTemp i - outsideTemp i)
          \<or> (\<not> isHeating r \<and> supplyTemp i - outsideTemp i < 0))
         \<and> 1 / 10 ^ 6 < \<bar>supplyTemp i - outsideTemp i\<bar>
      then Fin (max 0 (min ((targetTemp i - outsideTemp i) / (supplyTemp i - outsideTemp i)) 1))
      else Fin 0)"
  by (auto simp: calculateHvacPerformance_def Let_def split_def num_gt_def num_sub_def
        Math_max_def Math_min_def)

lemma condensing_iff:
  assumes "calculateHvacPerformance i = Some r"
  shows "condensing i \<longleftrightarrow> \<not> isHeating r \<and> \<not> num_ge (Fin (targetTemp i)) (dewPoint r)"
  by (simp add: condensing_def isHeating_eq [OF assms] dewPoint_eq [OF assms])

lemma finalAbsoluteHumidity_eq:
  assumes "calculateHvacPerformance i = Some r"
  shows "finalAbsoluteHumidity r =
     (if condensing i
      then calculateAbsoluteHumidity (calculateSaturationVaporPressure (Fin (targetTemp i)))
      else calculateAbsoluteHumidity (initialVaporPressure i))"
proof -
  have "finalAbsoluteHumidity (the (calculateHvacPerformance i)) =
     (if condensing i
      then calculateAbsoluteHumidity (calculateSaturationVaporPressure (Fin (targetTemp i)))
      else calculateAbsoluteHumidity (initialVaporPressure i))"
    by (simp add: calculateHvacPerformance_def Let_def split_def condensing_def
          initialVaporPressure_def num_gt_def num_sub_def)
  then show ?thesis
    using assms by simp
qed

lemma latentPower_eq:
  assumes "calculateHvacPerformance i = Some r"
  shows "latentPower r =
     (if condensing i
      then num_neg (Math_abs (num_mul
             (num_mul (airMassFlow i)
                (num_div (num_sub (initialAbsoluteHumidity r) (finalAbsoluteHumidity r))
                   (Fin 1000)))
             (Fin 2260)))
      else Fin 0)"
proof -
  have "latentPower (the (calculateHvacPerformance i)) =
     (if condensing i
      then num_neg (Math_abs (num_mul
             (num_mul (airMassFlow i)
                (num_div (num_sub (initialAbsoluteHumidity (the (calculateHvacPerformance i)))
                            (finalAbsoluteHumidity (the (calculateHvacPerformance i))))
                   (Fin 1000)))
             (Fin 2260)))
      else Fin 0)"
    by (simp add: calculateHvacPerformance_def Let_def split_def condensing_def
          initialVaporPressure_def airMassFlow_def LATENT_HEAT_VAPORIZATION_def
          num_gt_def num_sub_def)
  then show ?thesis
    using assms by simp
qed

lemma finalHumidity_eq:
  assumes "calculateHvacPerformance i = Some r"
  shows "finalHumidity r =
     (if condensing i then Fin 100
      else Math_max (Fin 0) (Math_min
             (num_mul (num_div (initialVaporPressure i)
                         (calculateSaturationVaporPressure (Fin (targetTemp i)))) (Fin 100))
             (Fin 100)))"
proof -
  have "finalHumidity (the (calculateHvacPerformance i)) =
     (if condensing i then Fin 100
      else Math_max (Fin 0) (Math_min
             (num_mul (num_div (initialVaporPressure i)
                         (calculateSaturationVaporPressure (Fin (targetTemp i)))) (Fin 100))
             (Fin 100)))"
    by (simp add: calculateHvacPerformance_def Let_def split_def condensing_def
          initialVaporPressure_def num_gt_def num_sub_def Math_max_def Math_min_def)
  then show ?thesis
    using assms by simp
qed

lemma waterVolumeFlow_eq:
  assumes "calculateHvacPerformance i = Some r"
  shows "waterVolumeFlow r =
     (if supplyTemp i \<noteq> returnTemp i
      then num_div (num_mul
             (num_div (Math_abs (totalPower r))
                (num_mul (Fin 4.186) (Fin \<bar>supplyTemp i - returnTemp i\<bar>)))
             (Fin 3600)) (Fin 1000)
      else PInf)"
proof -
  have "waterVolumeFlow (the (calculateHvacPerformance i)) =
     (if supplyTemp i \<noteq> returnTemp i
      then num_div (num_mul
             (num_div (Math_abs (totalPower (the (calculateHvacPerformance i))))
                (num_mul (Fin 4.186) (Fin \<bar>supplyTemp i - returnTemp i\<bar>)))
             (Fin 3600)) (Fin 1000)
      else PInf)"
    by (simp add: calculateHvacPerformance_def Let_def split_def num_gt_def num_sub_def
          SPECIFIC_HEAT_WATER_def WATER_DENSITY_def)
  then show ?thesis
    using assms by simp
qed

lemma recommendedPipeDiameter_eq:
  assumes "calculateHvacPerformance i = Some r"
  shows "recommendedPipeDiameter r =
     (if supplyTemp i \<noteq> returnTemp i \<and> isFinite (waterVolumeFlow r)
      then num_mul
             (Math_sqrt (num_div
                (num_mul (Fin 4) (num_div (num_div (waterVolumeFlow r) (Fin 3600)) (Fin 1.5)))
                (Fin pi)))
             (Fin 1000)
      else PInf)"
proof -
  have "recommendedPipeDiameter (the (calculateHvacPerformance i)) =
     (if supplyTemp i \<noteq> returnTemp i \<and> isFinite (waterVolumeFlow (the (calculateHvacPerformance i)))
      then num_mul
             (Math_sqrt (num_div
                (num_mul (Fin 4) (num_div (num_div (waterVolumeFlow (the (calculateHvacPerformance i))) (Fin 3600)) (Fin 1.5)))
                (Fin pi)))
             (Fin 1000)
      else PInf)"
    by (simp add: calculateHvacPerformance_def Let_def split_def num_gt_def num_sub_def
          RECOMMENDED_WATER_VELOCITY_def)
  then show ?thesis
    using assms by simp
qed

section \<open>The exponential inside and outside the 64-bit range\<close>

lemma exp_nat_upper: "exp (real n) \<le> 3 ^ n"
proof -
  have "exp (real n) = exp 1 ^ n"
    using exp_of_nat_mult [of n "1::real"] by simp
  also have "\<dots> \<le> 3 ^ n"
    by (rule power_mono [OF exp_le]) simp
  finally show ?thesis .
qed

lemma exp_nat_lower: "2 ^ n \<le> exp (real n)"
proof -
  have "(2::real) \<le> exp 1"
    using exp_ge_add_one_self [of "1::real"] by simp
  then have "(2::real) ^ n \<le> exp 1 ^ n"
    by (rule power_mono) simp
  also have "\<dots> = exp (real n)"
    using exp_of_nat_mult [of n "1::real"] by simp
  finally show ?thesis .
qed

lemma exp_645_bounds: "exp (645::real) < exp_overflow" "exp_underflow < exp (- 645 :: real)"
proof -
  have u: "exp (645::real) \<le> 3 ^ 645"
    using exp_nat_upper [of 645] by simp
  have "(3::real) ^ 645 < exp_overflow"
    unfolding exp_overflow_def by simp
  then show "exp (645::real) < exp_overflow"
    using u by linarith
  have "exp_underflow < 1 / (3::real) ^ 645"
    unfolding exp_underflow_def by (simp add: field_simps)
  also have "\<dots> \<le> 1 / exp (645::real)"
    using u by (simp add: frac_le)
  also have "\<dots> = exp (- 645 :: real)"
    by (simp add: exp_minus inverse_eq_divide)
  finally show "exp_underflow < exp (- 645 :: real)" .
qed

lemma Math_exp_Fin:
  assumes "- 645 \<le> x" and "x \<le> 645"
  shows "Math_exp (Fin x) = Fin (exp x)"
proof -
  have "exp x \<le> exp 645"
    using assms(2) by simp
  then have a: "\<not> exp_overflow \<le> exp x"
    using exp_645_bounds(1) by linarith
  have "exp (- 645) \<le> exp x"
    using assms(1) by simp
  then have b: "\<not> exp x \<le> exp_underflow"
    using exp_645_bounds(2) by linarith
  show ?thesis
    using a b by simp
qed

lemma Math_exp_overflow:
  assumes "1024 \<le> x"
  shows "Math_exp (Fin x) = PInf"
proof -
  have "exp_overflow \<le> 2 ^ 1024"
    unfolding exp_overflow_def by simp
  also have "\<dots> \<le> exp (1024::real)"
    using exp_nat_lower [of 1024] by simp
  also have "\<dots> \<le> exp x"
    using assms by simp
  finally show ?thesis
    by simp
qed

lemma Math_exp_underflow:
  assumes "x \<le> - 1075"
  shows "Math_exp (Fin x) = Fin 0"
proof -
  have "(2::real) ^ 1075 \<le> exp 1075"
    using exp_nat_lower [of 1075] by simp
  then have "1 / exp (1075::real) \<le> exp_underflow"
    unfolding exp_underflow_def by (simp add: frac_le)
  moreover have "exp (- 1075 :: real) = 1 / exp 1075"
    by (simp add: exp_minus inverse_eq_divide)
  moreover have "exp x \<le> exp (- 1075)"
    using assms by simp
  ultimately have u: "exp x \<le> exp_underflow"
    by linarith
  have "exp x < exp 645"
    using assms by simp
  then have "\<not> exp_overflow \<le> exp x"
    using exp_645_bounds(1) by linarith
  then show ?thesis
    using u by simp
qed

declare Math_exp.simps(1) [simp del]

section \<open>The saturation vapour pressure\<close>

lemma magnus_exponent_Fin:
  assumes "T \<noteq> - 243.5"
  shows "num_div (num_mul (Fin 17.67) (Fin T)) (num_add (Fin T) (Fin 243.5))
         = Fin (17.67 * T / (T + 243.5))"
proof -
  have "T + 243.5 \<noteq> 0"
    using assms by auto
  then show ?thesis
    by simp
qed

lemma calculateSaturationVaporPressure_in_range:
  assumes "T \<noteq> - 243.5"
    and "- 645 \<le> 17.67 * T / (T + 243.5)" and "17.67 * T / (T + 243.5) \<le> 645"
  shows "calculateSaturationVaporPressure (Fin T) = Fin (p_sat T)"
  unfolding calculateSaturationVaporPressure_def magnus_exponent_Fin [OF assms(1)]
    Math_exp_Fin [OF assms(2,3)] p_sat_def
  by simp

lemma magnus_exponent_bounds:
  fixes T :: real
  assumes "- 237 \<le> T"
  shows "- 645 \<le> 17.67 * T / (T + 243.5)" and "17.67 * T / (T + 243.5) \<le> 645"
  using assms by (simp_all add: divide_simps)

lemma calculateSaturationVaporPressure_Fin:
  assumes "- 237 \<le> T"
  shows "calculateSaturationVaporPressure (Fin T) = Fin (p_sat T)"
proof -
  have "T \<noteq> - 243.5"
    using assms by auto
  then show ?thesis
    using magnus_exponent_bounds [OF assms] by (rule calculateSaturationVaporPressure_in_range)
qed

lemma calculateSaturationVaporPressure_pole:
  "calculateSaturationVaporPressure (Fin (- 243.5)) = Fin 0"
  by (simp add: calculateSaturationVaporPressure_def signed_inf_def)

lemma calculateSaturationVaporPressure_underflow:
  assumes "- 243.5 < T" and "T \<le> - 240"
  shows "calculateSaturationVaporPressure (Fin T) = Fin 0"
proof -
  have T: "T \<noteq> - 243.5"
    using assms(1) by auto
  have "17.67 * T / (T + 243.5) \<le> - 1075"
    using assms by (simp add: divide_simps)
  then show ?thesis
    unfolding calculateSaturationVaporPressure_def magnus_exponent_Fin [OF T]
    by (simp add: Math_exp_underflow)
qed

lemma calculateSaturationVaporPressure_overflow:
  "calculateSaturationVaporPressure (Fin (- 244)) = PInf"
proof -
  have T: "(- 244 :: real) \<noteq> - 243.5"
    by simp
  have "(1024::real) \<le> 17.67 * (- 244) / (- 244 + 243.5)"
    by simp
  then show ?thesis
    unfolding calculateSaturationVaporPressure_def magnus_exponent_Fin [OF T]
    by (simp add: Math_exp_overflow signed_inf_def)
qed

lemma p_sat_pos: "0 < p_sat T"
  by (simp add: p_sat_def)


lemma calculateDewPoint_nonpos: "p \<le> 0 \<Longrightarrow> calculateDewPoint (Fin p) = NaN"
  by (cases "p = 0") (simp_all add: calculateDewPoint_def Let_def num_sub_def signed_inf_def)

lemma calculateDewPoint_pos:
  assumes "0 < p"
  shows "calculateDewPoint (Fin p) =
     (if ln (p / 6.112) = 17.67 then PInf
      else Fin (243.5 * ln (p / 6.112) / (17.67 - ln (p / 6.112))))"
proof -
  define L where "L = ln (p / 6.112)"
  have "num_div (Fin p) (Fin 6.112) = Fin (p / 6.112)"
    by simp
  moreover have "0 < p / 6.112"
    using assms by simp
  ultimately have lg: "Math_log (num_div (Fin p) (Fin 6.112)) = Fin L"
    unfolding L_def by (simp only: Math_log.simps if_True)
  have "calculateDewPoint (Fin p) = num_div (Fin (243.5 * L)) (Fin (17.67 - L))"
    unfolding calculateDewPoint_def Let_def lg num_sub_def by simp
  also have "\<dots> = (if L = 17.67 then PInf else Fin (243.5 * L / (17.67 - L)))"
    by (auto simp: signed_inf_def)
  finally show ?thesis
    unfolding L_def .
qed

lemma magnus_inverse:
  fixes a b T :: real
  assumes "T + b \<noteq> 0" and "a \<noteq> 0" and "b \<noteq> 0"
  shows "a - a * T / (T + b) = a * b / (T + b)"
    and "a * T / (T + b) \<noteq> a"
    and "b * (a * T / (T + b)) / (a - a * T / (T + b)) = T"
proof -
  show gap: "a - a * T / (T + b) = a * b / (T + b)"
    using assms(1) by (simp add: field_simps)
  have "a * b / (T + b) \<noteq> 0"
    using assms by simp
  then show "a * T / (T + b) \<noteq> a"
    using gap by auto
  define x where "x = a * b / (T + b)"
  have "x \<noteq> 0"
    unfolding x_def using assms by simp
  moreover have "b * (a * T / (T + b)) = T * x"
    unfolding x_def by simp
  ultimately have "b * (a * T / (T + b)) / x = T"
    by simp
  then show "b * (a * T / (T + b)) / (a - a * T / (T + b)) = T"
    unfolding gap x_def .
qed

lemma ln_p_sat:
  assumes "0 < c"
  shows "ln (c * p_sat T / 6.112) = ln c + 17.67 * T / (T + 243.5)"
proof -
  define E where "E = 17.67 * T / (T + 243.5)"
  have "p_sat T = 6.112 * exp E"
    unfolding p_sat_def E_def ..
  then have "c * p_sat T / 6.112 = c * exp E"
    by simp
  then have "ln (c * p_sat T / 6.112) = ln (c * exp E)"
    by (rule arg_cong)
  also have "\<dots> = ln c + E"
    using assms by (simp add: ln_mult)
  finally show ?thesis
    unfolding E_def .
qed

lemma dewPoint_roundtrip:
  assumes "T \<noteq> - 243.5"
  shows "calculateDewPoint (Fin (p_sat T)) = Fin T"
proof -
  define E where "E = 17.67 * T / (T + 243.5)"
  have nz: "T + 243.5 \<noteq> 0"
    using assms by auto
  have pos: "0 < p_sat T"
    by (rule p_sat_pos)
  have "ln (1 * p_sat T / 6.112) = ln 1 + E"
    unfolding E_def by (rule ln_p_sat) simp
  then have L: "ln (p_sat T / 6.112) = E"
    by simp
  have ne: "E \<noteq> 17.67"
    unfolding E_def by (rule magnus_inverse(2) [OF nz]) simp_all
  have inv: "243.5 * E / (17.67 - E) = T"
    unfolding E_def by (rule magnus_inverse(3) [OF nz]) simp_all
  show ?thesis
    unfolding calculateDewPoint_pos [OF pos] L using ne inv by (simp only: if_False)
qed

lemma dew_formula_less_iff:
  fixes a b L t :: real
  assumes "0 < b" and "0 < t + b" and "L < a"
  shows "b * L / (a - L) < t \<longleftrightarrow> L < a * t / (t + b)"
proof -
  have "b * L / (a - L) < t \<longleftrightarrow> b * L < t * (a - L)"
    using assms(3) by (simp add: divide_simps)
  also have "\<dots> \<longleftrightarrow> L * (t + b) < a * t"
    by (auto simp: algebra_simps)
  also have "\<dots> \<longleftrightarrow> L < a * t / (t + b)"
    using assms(2) by (simp add: divide_simps)
  finally show ?thesis .
qed

lemma dewPoint_below:
  assumes "- 243.5 < T" and "0 < RH" and "RH < 100"
  shows "\<exists>d. calculateDewPoint (Fin (RH / 100 * p_sat T)) = Fin d \<and> d < T"
proof -
  define E where "E = 17.67 * T / (T + 243.5)"
  define L where "L = ln (RH / 100 * p_sat T / 6.112)"
  have T: "T \<noteq> - 243.5" and Tb: "0 < T + 243.5"
    using assms(1) by auto
  have c: "0 < RH / 100" and c1: "RH / 100 < 1"
    using assms(2,3) by auto
  have "0 < p_sat T"
    by (rule p_sat_pos)
  then have pos: "0 < RH / 100 * p_sat T"
    using c by simp
  have "L = ln (RH / 100) + E"
    unfolding L_def E_def by (rule ln_p_sat [OF c])
  moreover have "ln (RH / 100) < 0"
    using c c1 by (rule ln_less_zero)
  ultimately have LE: "L < E"
    by simp
  have "17.67 - E = 17.67 * 243.5 / (T + 243.5)"
    unfolding E_def by (rule magnus_inverse(1)) (use T in auto)
  also have "\<dots> > 0"
    using Tb by simp
  finally have La: "L < 17.67"
    using LE by simp
  have "243.5 * L / (17.67 - L) < T \<longleftrightarrow> L < 17.67 * T / (T + 243.5)"
    by (rule dew_formula_less_iff [OF _ Tb La]) simp
  then have lt: "243.5 * L / (17.67 - L) < T"
    using LE unfolding E_def by simp
  have "calculateDewPoint (Fin (RH / 100 * p_sat T)) = Fin (243.5 * L / (17.67 - L))"
    unfolding calculateDewPoint_pos [OF pos] L_def [symmetric] using La by simp
  then show ?thesis
    using lt by blast
qed

lemma num_lt_not_ge: "num_lt a b \<Longrightarrow> \<not> num_ge a b"
  by (cases a; cases b) (auto simp: num_ge_def)

lemma airMassFlow_Fin: "airMassFlow i = Fin (volumeFlow i * 1.204 / 3600)"
  by (simp add: airMassFlow_def AIR_DENSITY_def)

lemma initialVaporPressure_Fin:
  assumes "- 237 \<le> outsideTemp i"
  shows "initialVaporPressure i = Fin (outsideHumidity i / 100 * p_sat (outsideTemp i))"
  unfolding initialVaporPressure_def calculateSaturationVaporPressure_Fin [OF assms] by simp

lemma saturation_fraction_Fin:
  assumes "- 237 \<le> T"
  shows "num_div (num_mul (calculateSaturationVaporPressure (Fin T)) (Fin RH)) (Fin 100)
     = Fin (RH / 100 * p_sat T)"
  unfolding calculateSaturationVaporPressure_Fin [OF assms] by simp

lemma calculateSaturationVaporPressure_cases:
  "calculateSaturationVaporPressure (Fin T) = PInf
   \<or> (\<exists>p. calculateSaturationVaporPressure (Fin T) = Fin p \<and> 0 \<le> p)"
proof (cases "T = - 243.5")
  case True
  then show ?thesis
    using calculateSaturationVaporPressure_pole by simp
next
  case False
  define E where "E = 17.67 * T / (T + 243.5)"
  have v: "calculateSaturationVaporPressure (Fin T) = num_mul (Fin 6.112) (Math_exp (Fin E))"
    unfolding calculateSaturationVaporPressure_def magnus_exponent_Fin [OF False] E_def ..
  have "Math_exp (Fin E) = PInf \<or> Math_exp (Fin E) = Fin 0
      \<or> Math_exp (Fin E) = Fin (exp E)"
    by (simp add: Math_exp.simps(1))
  then consider "Math_exp (Fin E) = PInf" | "Math_exp (Fin E) = Fin 0"
    | "Math_exp (Fin E) = Fin (exp E)"
    by blast
  then show ?thesis
  proof cases
    case 1
    then show ?thesis
      unfolding v by (simp add: signed_inf_def)
  next
    case 2
    then show ?thesis
      unfolding v by simp
  next
    case 3
    have "0 \<le> 6.112 * exp E"
      by simp
    moreover have "calculateSaturationVaporPressure (Fin T) = Fin (6.112 * exp E)"
      unfolding v 3 by simp
    ultimately show ?thesis
      by blast
  qed
qed

lemma calculateDewPoint_not_finite: "calculateDewPoint NInf = NaN" "calculateDewPoint NaN = NaN"
  by (simp_all add: calculateDewPoint_def Let_def num_sub_def signed_inf_def)

lemma dewPoint_nonpositive_humidity:
  assumes "RH \<le> 0"
  shows "calculateDewPoint
           (num_div (num_mul (calculateSaturationVaporPressure (Fin T)) (Fin RH)) (Fin 100))
         = NaN"
proof -
  consider "calculateSaturationVaporPressure (Fin T) = PInf"
    | p where "calculateSaturationVaporPressure (Fin T) = Fin p" "0 \<le> p"
    using calculateSaturationVaporPressure_cases by blast
  then show ?thesis
  proof cases
    case 1
    then show ?thesis
      using assms by (simp add: signed_inf_def calculateDewPoint_not_finite)
  next
    case 2
    have "p * RH / 100 \<le> 0"
      using assms 2(2) by (simp add: mult_nonneg_nonpos divide_nonpos_nonneg)
    then have "calculateDewPoint (Fin (p * RH / 100)) = NaN"
      by (rule calculateDewPoint_nonpos)
    then show ?thesis
      unfolding 2(1) by simp
  qed
qed

lemma dewPoint_below_outside:
  assumes "- 237 \<le> outsideTemp i" and "0 < outsideHumidity i" and "outsideHumidity i < 100"
  shows "\<exists>d. calculateDewPoint (initialVaporPressure i) = Fin d \<and> d < outsideTemp i"
proof -
  have "- 243.5 < outsideTemp i"
    using assms(1) by simp
  then show ?thesis
    unfolding initialVaporPressure_Fin [OF assms(1)] using assms(2,3) by (rule dewPoint_below)
qed

section \<open>The clamps\<close>









section \<open>Water flow and pipe diameter\<close>

lemma num_mul_commute: "num_mul a b = num_mul b a"
  by (cases a; cases b) (simp_all add: mult.commute)

text \<open>The water flow as a function of the total power, for a positive temperature spread.\<close>

lemma water_flow_cases:
  assumes "0 < k"
  shows "num_div (num_mul (num_div (Math_abs t) (num_mul (Fin 4.186) (Fin k))) (Fin 3600))
           (Fin 1000) =
         (case t of Fin x \<Rightarrow> Fin (\<bar>x\<bar> / (4.186 * k) * 3600 / 1000)
                  | PInf \<Rightarrow> PInf | NInf \<Rightarrow> PInf | NaN \<Rightarrow> NaN)"
  using assms by (cases t) (simp_all add: signed_inf_def)


lemma pipe_formula_PInf:
  "num_mul
     (Math_sqrt (num_div
        (num_mul (Fin 4) (num_div (num_div PInf (Fin 3600)) (Fin 1.5))) (Fin pi)))
     (Fin 1000) = PInf"
  by (simp add: signed_inf_def)

lemma waterVolumeFlow_cases:
  assumes "calculateHvacPerformance i = Some r"
  shows "waterVolumeFlow r = PInf
     \<or> (\<exists>w. waterVolumeFlow r = Fin w \<and> 0 \<le> w \<and> supplyTemp i \<noteq> returnTemp i)
     \<or> (waterVolumeFlow r = NaN \<and> latentPower r = NaN \<and> supplyTemp i \<noteq> returnTemp i)"
proof (cases "supplyTemp i = returnTemp i")
  case True
  then show ?thesis
    by (simp add: waterVolumeFlow_eq [OF assms])
next
  case False
  then have k: "0 < \<bar>supplyTemp i - returnTemp i\<bar>"
    by simp
  have t: "totalPower r = num_add (Fin (volumeFlow i * 1.204 / 3600 * 1.005
      * (targetTemp i - outsideTemp i))) (latentPower r)"
    unfolding totalPower_eq [OF assms] sensiblePower_eq [OF assms] ..
  show ?thesis
    unfolding waterVolumeFlow_eq [OF assms] water_flow_cases [OF k] t using False
    by (cases "latentPower r") simp_all
qed


lemma recommendedPipeDiameter_formula:
  assumes "calculateHvacPerformance i = Some r"
    and "supplyTemp i \<noteq> returnTemp i"
  shows "if waterVolumeFlow r = NaN then recommendedPipeDiameter r = PInf
         else recommendedPipeDiameter r =
           num_mul (Fin 1000)
             (Math_sqrt (num_div
                (num_mul (Fin 4) (num_div (num_div (waterVolumeFlow r) (Fin 3600)) (Fin 1.5)))
                (Fin pi)))"
proof -
  consider "waterVolumeFlow r = PInf" | w where "waterVolumeFlow r = Fin w"
    | "waterVolumeFlow r = NaN"
    using waterVolumeFlow_cases [OF assms(1)] by blast
  then show ?thesis
  proof cases
    case 1
    then show ?thesis
      unfolding recommendedPipeDiameter_eq [OF assms(1)] num_mul_commute [of "Fin 1000"]
        1 pipe_formula_PInf
      by simp
  next
    case 2
    then show ?thesis
      unfolding recommendedPipeDiameter_eq [OF assms(1)] num_mul_commute [of "Fin 1000"]
      using assms(2) by simp
  next
    case 3
    then show ?thesis
      unfolding recommendedPipeDiameter_eq [OF assms(1)] by simp
  qed
qed

lemma defaultInputs_waterVolumeFlow:
  assumes "calculateHvacPerformance defaultInputs = Some r"
  shows "\<exists>w. waterVolumeFlow r = Fin w \<and> 0 < w"
proof -
  have h: "isHeating r"
    using isHeating_eq [OF assms] by (simp add: defaultInputs_def)
  have ne: "supplyTemp defaultInputs \<noteq> returnTemp defaultInputs"
    by (simp add: defaultInputs_def)
  then have k: "0 < \<bar>supplyTemp defaultInputs - returnTemp defaultInputs\<bar>"
    by simp
  have "\<not> condensing defaultInputs"
    using h condensing_iff [OF assms] by simp
  then have l: "latentPower r = Fin 0"
    by (simp add: latentPower_eq [OF assms])
  have "totalPower r = Fin 8.0668"
    unfolding totalPower_eq [OF assms] l sensiblePower_eq [OF assms]
    by (simp add: defaultInputs_def)
  then have "waterVolumeFlow r = Fin (8.0668 / (4.186 * 20) * 3600 / 1000)"
    unfolding waterVolumeFlow_eq [OF assms] water_flow_cases [OF k] using ne
    by (simp add: defaultInputs_def)
  moreover have "(0::real) < 8.0668 / (4.186 * 20) * 3600 / 1000"
    by simp
  ultimately show ?thesis
    by blast
qed

section \<open>The input near the pole\<close>

lemma nearPoleInputs_vaporPressure: "initialVaporPressure nearPoleInputs = PInf"
  unfolding initialVaporPressure_def
  by (simp add: nearPoleInputs_def calculateSaturationVaporPressure_overflow signed_inf_def)

lemma calculateDewPoint_PInf: "calculateDewPoint PInf = NaN"
  by (simp add: calculateDewPoint_def Let_def num_sub_def signed_inf_def)

lemma calculateAbsoluteHumidity_PInf: "calculateAbsoluteHumidity PInf = NaN"
  by (simp add: calculateAbsoluteHumidity_def num_sub_def signed_inf_def)

lemma nearPoleInputs_condensing: "condensing nearPoleInputs"
  unfolding condensing_def nearPoleInputs_vaporPressure calculateDewPoint_PInf
  by (simp add: nearPoleInputs_def num_ge_def)

lemma nearPoleInputs_latentPower:
  assumes "calculateHvacPerformance nearPoleInputs = Some r"
  shows "latentPower r = NaN"
  unfolding latentPower_eq [OF assms] initialAbsoluteHumidity_eq [OF assms]
    nearPoleInputs_vaporPressure calculateAbsoluteHumidity_PInf
  using nearPoleInputs_condensing by (simp add: num_sub_def airMassFlow_Fin)

lemma nearPoleInputs_water:
  assumes "calculateHvacPerformance nearPoleInputs = Some r"
  shows "waterVolumeFlow r = NaN" and "recommendedPipeDiameter r = PInf"
proof -
  have ne: "supplyTemp nearPoleInputs \<noteq> returnTemp nearPoleInputs"
    by (simp add: nearPoleInputs_def)
  then have k: "0 < \<bar>supplyTemp nearPoleInputs - returnTemp nearPoleInputs\<bar>"
    by simp
  have "totalPower r = NaN"
    unfolding totalPower_eq [OF assms] nearPoleInputs_latentPower [OF assms]
      sensiblePower_eq [OF assms] by simp
  then show w: "waterVolumeFlow r = NaN"
    unfolding waterVolumeFlow_eq [OF assms] water_flow_cases [OF k] using ne by simp
  show "recommendedPipeDiameter r = PInf"
    using recommendedPipeDiameter_formula [OF assms ne] w by simp
qed

section \<open>Inputs inside the widget ranges\<close>




section \<open>Mode, sensible power and total power\<close>

text \<open>
  Claim C1. For every input the calculator returns a result whose \<open>isHeating\<close> is
  \<open>targetTemp > outsideTemp\<close> (strictly: an equal or lower target is cooling), whose
  \<open>sensiblePower\<close> is \<open>(volumeFlow * 1.204 / 3600) * 1.005 * (targetTemp - outsideTemp)\<close>
  and whose \<open>totalPower\<close> is the sum of \<open>sensiblePower\<close> and \<open>latentPower\<close>.
\<close>

theorem mode_sensible_total:
  "\<exists>r. calculateHvacPerformance i = Some r
     \<and> isHeating r = (targetTemp i > outsideTemp i)
     \<and> sensiblePower r
         = Fin ((volumeFlow i * 1.204 / 3600) * 1.005 * (targetTemp i - outsideTemp i))
     \<and> totalPower r = num_add (sensiblePower r) (latentPower r)"
proof -
  obtain r where r: "calculateHvacPerformance i = Some r"
    using calculateHvacPerformance_returns by blast
  show ?thesis
    using r isHeating_eq [OF r] sensiblePower_eq [OF r] totalPower_eq [OF r] by simp
qed

text \<open>At the default input: heating, with a sensible power of 8.0668 kW.\<close>

theorem mode_sensible_total_witness:
  "\<exists>r. calculateHvacPerformance defaultInputs = Some r
     \<and> isHeating r \<and> sensiblePower r = Fin 8.0668"
  using mode_sensible_total [of defaultInputs] by (auto simp: defaultInputs_def)

section \<open>Efficiency\<close>

text \<open>
  Claim C6. For every input, \<open>efficiency\<close> is the clamp to \<open>[0, 1]\<close> of
  \<open>(targetTemp - outsideTemp) / (supplyTemp - outsideTemp)\<close> exactly when the sign of
  \<open>supplyTemp - outsideTemp\<close> agrees with the mode (positive when heating, negative when
  cooling) and \<open>|supplyTemp - outsideTemp| > 1e-6\<close>; in every other configuration it is 0.
\<close>

theorem efficiency_formula:
  "\<exists>r. calculateHvacPerformance i = Some r
     \<and> efficiency r =
         (if ((isHeating r \<and> 0 < supplyTemp i - outsideTemp i)
              \<or> (\<not> isHeating r \<and> supplyTemp i - outsideTemp i < 0))
             \<and> 1 / 10 ^ 6 < \<bar>supplyTemp i - outsideTemp i\<bar>
          then Fin (max 0 (min ((targetTemp i - outsideTemp i)
                                / (supplyTemp i - outsideTemp i)) 1))
          else Fin 0)"
proof -
  obtain r where r: "calculateHvacPerformance i = Some r"
    using calculateHvacPerformance_returns by blast
  show ?thesis
    using r efficiency_eq [OF r] by blast
qed

text \<open>At the default input the coil uses 12 of the 50 available degrees.\<close>

theorem efficiency_formula_witness:
  "\<exists>r. calculateHvacPerformance defaultInputs = Some r
     \<and> isHeating r \<and> efficiency r = Fin (6 / 25)"
proof -
  obtain r where r: "calculateHvacPerformance defaultInputs = Some r"
    and e: "efficiency r =
         (if ((isHeating r \<and> 0 < supplyTemp defaultInputs - outsideTemp defaultInputs)
              \<or> (\<not> isHeating r \<and> supplyTemp defaultInputs - outsideTemp defaultInputs < 0))
             \<and> 1 / 10 ^ 6 < \<bar>supplyTemp defaultInputs - outsideTemp defaultInputs\<bar>
          then Fin (max 0 (min ((targetTemp defaultInputs - outsideTemp defaultInputs)
                                / (supplyTemp defaultInputs - outsideTemp defaultInputs)) 1))
          else Fin 0)"
    using efficiency_formula [of defaultInputs] by blast
  have h: "isHeating r"
    using isHeating_eq [OF r] by (simp add: defaultInputs_def)
  show ?thesis
    using r h e by (simp add: defaultInputs_def)
qed

section \<open>The outside-air fields\<close>

text \<open>
  Claim C9. Two inputs that agree on \<open>outsideTemp\<close> and \<open>outsideHumidity\<close>, and may
  differ in the four other fields, give the same \<open>dewPoint\<close> and the same
  \<open>initialAbsoluteHumidity\<close>.
\<close>

theorem outside_air_fields_only:
  assumes "outsideTemp i1 = outsideTemp i2"
    and "outsideHumidity i1 = outsideHumidity i2"
    and "calculateHvacPerformance i1 = Some r1"
    and "calculateHvacPerformance i2 = Some r2"
  shows "dewPoint r1 = dewPoint r2
     \<and> initialAbsoluteHumidity r1 = initialAbsoluteHumidity r2"
proof -
  have "initialVaporPressure i1 = initialVaporPressure i2"
    using assms(1,2) by (simp add: initialVaporPressure_def)
  then show ?thesis
    using dewPoint_eq [OF assms(3)] dewPoint_eq [OF assms(4)]
      initialAbsoluteHumidity_eq [OF assms(3)] initialAbsoluteHumidity_eq [OF assms(4)]
    by simp
qed

text \<open>
  The default input against a cooling run of the same outside air: all four other
  fields differ, and so does the mode.
\<close>

theorem outside_air_fields_only_witness:
  "\<exists>r1 r2.
     calculateHvacPerformance defaultInputs = Some r1
     \<and> calculateHvacPerformance
          (defaultInputs\<lparr> volumeFlow := 500, targetTemp := 5,
                          supplyTemp := 6, returnTemp := 12 \<rparr>) = Some r2
     \<and> isHeating r1 \<and> \<not> isHeating r2
     \<and> dewPoint r1 = dewPoint r2
     \<and> initialAbsoluteHumidity r1 = initialAbsoluteHumidity r2"
proof -
  let ?j = "defaultInputs\<lparr> volumeFlow := 500, targetTemp := 5,
                          supplyTemp := 6, returnTemp := 12 \<rparr>"
  obtain r1 where r1: "calculateHvacPerformance defaultInputs = Some r1"
    using calculateHvacPerformance_returns by blast
  obtain r2 where r2: "calculateHvacPerformance ?j = Some r2"
    using calculateHvacPerformance_returns by blast
  have t: "outsideTemp defaultInputs = outsideTemp ?j" by simp
  have h: "outsideHumidity defaultInputs = outsideHumidity ?j" by simp
  have m1: "isHeating r1"
    using isHeating_eq [OF r1] by (simp add: defaultInputs_def)
  have m2: "\<not> isHeating r2"
    using isHeating_eq [OF r2] by (simp add: defaultInputs_def)
  show ?thesis
    using outside_air_fields_only [OF t h r1 r2] r1 r2 m1 m2 by blast
qed

section \<open>The humidity paths\<close>

text \<open>
  Claim C3. For every input with \<open>isHeating\<close> true, and likewise for every input with
  \<open>isHeating\<close> false and \<open>targetTemp >= dewPoint\<close>, the absolute humidity is unchanged,
  \<open>latentPower\<close> is 0, and \<open>finalHumidity\<close> is
  \<open>(initialVaporPressure / p_sat(targetTemp)) * 100\<close> clamped to \<open>[0, 100]\<close>.
\<close>

theorem no_condensation_path:
  assumes "calculateHvacPerformance i = Some r"
    and "isHeating r \<or> (\<not> isHeating r \<and> num_ge (Fin (targetTemp i)) (dewPoint r))"
  shows "finalAbsoluteHumidity r = initialAbsoluteHumidity r
     \<and> latentPower r = Fin 0
     \<and> finalHumidity r =
         Math_max (Fin 0) (Math_min
           (num_mul (num_div (initialVaporPressure i)
                       (calculateSaturationVaporPressure (Fin (targetTemp i)))) (Fin 100))
           (Fin 100))"
proof -
  have "\<not> condensing i"
    using assms(2) condensing_iff [OF assms(1)] by blast
  then show ?thesis
    by (simp add: finalAbsoluteHumidity_eq [OF assms(1)] initialAbsoluteHumidity_eq [OF assms(1)]
          latentPower_eq [OF assms(1)] finalHumidity_eq [OF assms(1)])
qed

text \<open>
  Both cases at concrete inputs: the default input (heating), and the default input with
  the target lowered to the outside temperature (cooling mode, target above the dew point).
\<close>

theorem no_condensation_path_witness:
  "(\<exists>r. calculateHvacPerformance defaultInputs = Some r
      \<and> isHeating r
      \<and> finalAbsoluteHumidity r = initialAbsoluteHumidity r \<and> latentPower r = Fin 0)
   \<and> (\<exists>r. calculateHvacPerformance (defaultInputs\<lparr> targetTemp := 10 \<rparr>) = Some r
      \<and> \<not> isHeating r \<and> num_ge (Fin 10) (dewPoint r)
      \<and> finalAbsoluteHumidity r = initialAbsoluteHumidity r \<and> latentPower r = Fin 0)"
proof (rule conjI)
  obtain r where r: "calculateHvacPerformance defaultInputs = Some r"
    using calculateHvacPerformance_returns by blast
  have m: "isHeating r"
    using isHeating_eq [OF r] by (simp add: defaultInputs_def)
  then have "isHeating r \<or> (\<not> isHeating r \<and> num_ge (Fin (targetTemp defaultInputs)) (dewPoint r))"
    by simp
  from no_condensation_path [OF r this] r m
  show "\<exists>r. calculateHvacPerformance defaultInputs = Some r
      \<and> isHeating r
      \<and> finalAbsoluteHumidity r = initialAbsoluteHumidity r \<and> latentPower r = Fin 0"
    by blast
next
  let ?j = "defaultInputs\<lparr> targetTemp := 10 \<rparr>"
  obtain r where r: "calculateHvacPerformance ?j = Some r"
    using calculateHvacPerformance_returns by blast
  have m: "\<not> isHeating r"
    using isHeating_eq [OF r] by (simp add: defaultInputs_def)
  have "\<exists>d. calculateDewPoint (initialVaporPressure ?j) = Fin d \<and> d < outsideTemp ?j"
    by (rule dewPoint_below_outside) (simp_all add: defaultInputs_def)
  then obtain d where d: "calculateDewPoint (initialVaporPressure ?j) = Fin d" "d < 10"
    by (auto simp: defaultInputs_def)
  have "dewPoint r = Fin d"
    unfolding dewPoint_eq [OF r] by (rule d(1))
  then have g: "num_ge (Fin 10) (dewPoint r)"
    using d(2) by (simp add: num_ge_def)
  then have "isHeating r \<or> (\<not> isHeating r \<and> num_ge (Fin (targetTemp ?j)) (dewPoint r))"
    using m by simp
  from no_condensation_path [OF r this] r m g
  show "\<exists>r. calculateHvacPerformance ?j = Some r
      \<and> \<not> isHeating r \<and> num_ge (Fin 10) (dewPoint r)
      \<and> finalAbsoluteHumidity r = initialAbsoluteHumidity r \<and> latentPower r = Fin 0"
    by blast
qed

text \<open>
  Claim C2 says that \<open>latentPower != 0\<close> implies \<open>latentPower <= 0\<close>, and the comment of
  the source says the same (latent power is negative, a cooling effect). The code at
  the input near the pole: \<^verbatim>\<open>Math.exp\<close> overflows, the vapour pressure is infinite, the
  dew point and the initial absolute humidity are NaN, the calculator takes the
  dehumidification branch (cooling, and \<^verbatim>\<open>targetTemp >= dewPoint\<close> is false), and
  \<open>latentPower\<close> is NaN, which is \<open>!= 0\<close> and not \<open><= 0\<close>.
\<close>

theorem latent_power_nan_near_pole:
  "map_option isHeating (calculateHvacPerformance nearPoleInputs) = Some False
   \<and> map_option dewPoint (calculateHvacPerformance nearPoleInputs) = Some NaN
   \<and> map_option latentPower (calculateHvacPerformance nearPoleInputs) = Some NaN
   \<and> NaN \<noteq> Fin 0 \<and> \<not> num_le NaN (Fin 0)"
proof -
  obtain r where r: "calculateHvacPerformance nearPoleInputs = Some r"
    using calculateHvacPerformance_returns by blast
  have "\<not> isHeating r"
    using isHeating_eq [OF r] by (simp add: nearPoleInputs_def)
  moreover have "dewPoint r = NaN"
    unfolding dewPoint_eq [OF r] nearPoleInputs_vaporPressure by (rule calculateDewPoint_PInf)
  ultimately show ?thesis
    using nearPoleInputs_latentPower [OF r] by (simp add: r)
qed

section \<open>The clamped fields\<close>




section \<open>Round trip of the humidity formulas\<close>

text \<open>
  Claim C8, amended. In exact real arithmetic, with \<^verbatim>\<open>Math.exp\<close> inside the 64-bit range
  (\<open>T >= -237\<close>): for every relative humidity \<open>0 < RH < 100\<close>,
  \<open>calculateDewPoint(calculateSaturationVaporPressure(T) * RH / 100)\<close> is below \<open>T\<close>
  (strictly, hence also \<open><= T\<close>), and for \<open>RH = 100\<close> it is exactly \<open>T\<close>. For
  \<open>-243.5 < T <= -240\<close>, where \<^verbatim>\<open>Math.exp\<close> underflows to 0, it is NaN for every \<open>RH\<close>,
  and for \<open>RH <= 0\<close> it is NaN for every \<open>T\<close>.
\<close>

theorem dewPoint_of_saturation:
  "(- 237 \<le> T \<and> 0 < RH \<and> RH < 100 \<longrightarrow>
      num_lt (calculateDewPoint
                (num_div (num_mul (calculateSaturationVaporPressure (Fin T)) (Fin RH)) (Fin 100)))
        (Fin T)
    \<and> num_le (calculateDewPoint
                (num_div (num_mul (calculateSaturationVaporPressure (Fin T)) (Fin RH)) (Fin 100)))
        (Fin T))
   \<and> (- 237 \<le> T \<longrightarrow>
      calculateDewPoint
        (num_div (num_mul (calculateSaturationVaporPressure (Fin T)) (Fin 100)) (Fin 100))
      = Fin T)
   \<and> (- 243.5 < T \<and> T \<le> - 240 \<longrightarrow>
      calculateDewPoint
        (num_div (num_mul (calculateSaturationVaporPressure (Fin T)) (Fin RH)) (Fin 100))
      = NaN)
   \<and> (RH \<le> 0 \<longrightarrow>
      calculateDewPoint
        (num_div (num_mul (calculateSaturationVaporPressure (Fin T)) (Fin RH)) (Fin 100))
      = NaN)"
proof (intro conjI impI)
  assume h: "- 237 \<le> T \<and> 0 < RH \<and> RH < 100"
  then have T: "- 237 \<le> T" and "- 243.5 < T"
    by simp_all
  then obtain d where d: "calculateDewPoint (Fin (RH / 100 * p_sat T)) = Fin d" "d < T"
    using h dewPoint_below [of T RH] by blast
  show "num_lt (calculateDewPoint
                (num_div (num_mul (calculateSaturationVaporPressure (Fin T)) (Fin RH)) (Fin 100)))
        (Fin T)"
    unfolding saturation_fraction_Fin [OF T] d(1) using d(2) by simp
  show "num_le (calculateDewPoint
                (num_div (num_mul (calculateSaturationVaporPressure (Fin T)) (Fin RH)) (Fin 100)))
        (Fin T)"
    unfolding saturation_fraction_Fin [OF T] d(1) using d(2) by simp
next
  assume T: "- 237 \<le> T"
  then have "T \<noteq> - 243.5"
    by auto
  then have "calculateDewPoint (Fin (p_sat T)) = Fin T"
    by (rule dewPoint_roundtrip)
  then show "calculateDewPoint
        (num_div (num_mul (calculateSaturationVaporPressure (Fin T)) (Fin 100)) (Fin 100))
      = Fin T"
    unfolding saturation_fraction_Fin [OF T] by simp
next
  assume "- 243.5 < T \<and> T \<le> - 240"
  then have "calculateSaturationVaporPressure (Fin T) = Fin 0"
    using calculateSaturationVaporPressure_underflow by blast
  then show "calculateDewPoint
        (num_div (num_mul (calculateSaturationVaporPressure (Fin T)) (Fin RH)) (Fin 100))
      = NaN"
    by (simp add: calculateDewPoint_nonpos)
next
  assume "RH \<le> 0"
  then show "calculateDewPoint
        (num_div (num_mul (calculateSaturationVaporPressure (Fin T)) (Fin RH)) (Fin 100))
      = NaN"
    by (rule dewPoint_nonpositive_humidity)
qed

text \<open>
  At 20 degrees: 50 percent gives a dew point below 20, 100 percent gives 20, and a
  humidity of 10 percent below zero gives NaN. At 240 degrees below zero the result is
  NaN.
\<close>

theorem dewPoint_of_saturation_witness:
  "(- 237 :: real) \<le> 20 \<and> (0::real) < 50 \<and> (50::real) < 100
   \<and> num_le (calculateDewPoint
                (num_div (num_mul (calculateSaturationVaporPressure (Fin 20)) (Fin 50)) (Fin 100)))
        (Fin 20)
   \<and> calculateDewPoint
        (num_div (num_mul (calculateSaturationVaporPressure (Fin 20)) (Fin 100)) (Fin 100))
      = Fin 20
   \<and> (- 243.5 :: real) < - 240
   \<and> calculateDewPoint
        (num_div (num_mul (calculateSaturationVaporPressure (Fin (- 240))) (Fin 50)) (Fin 100))
      = NaN
   \<and> (- 10 :: real) \<le> 0
   \<and> calculateDewPoint
        (num_div (num_mul (calculateSaturationVaporPressure (Fin 20)) (Fin (- 10))) (Fin 100))
      = NaN"
  using dewPoint_of_saturation [of 20 50] dewPoint_of_saturation [of "- 240" 50]
    dewPoint_of_saturation [of 20 "- 10"]
  by simp

text \<open>
  The claim as stated (for every \<open>T\<close> and \<open>RH < 100\<close> the value is \<open><= T\<close>) fails at
  \<open>RH = 0\<close>: the logarithm of 0 is minus infinity, the quotient of the two infinities is
  NaN, and \<open>NaN <= 20\<close> is false.
\<close>

theorem dewPoint_of_saturation_counterexample:
  "\<not> num_le (calculateDewPoint
                (num_div (num_mul (calculateSaturationVaporPressure (Fin 20)) (Fin 0)) (Fin 100)))
        (Fin 20)"
proof -
  have "calculateDewPoint
      (num_div (num_mul (calculateSaturationVaporPressure (Fin 20)) (Fin 0)) (Fin 100)) = NaN"
    by (rule dewPoint_nonpositive_humidity) simp
  then show ?thesis
    by simp
qed

section \<open>The failure value\<close>

text \<open>
  Claim C7 says that an input whose dew-point logarithm has a non-positive argument, such
  as \<open>outsideHumidity = 0\<close>, makes the calculator return the failure value. The code at
  the default input with \<open>outsideHumidity = 0\<close>: the vapour pressure is 0, its logarithm is
  minus infinity, and the calculator returns a result (not the failure value) whose
  \<open>dewPoint\<close> is NaN.
\<close>

theorem no_failure_value_at_zero_humidity:
  "initialVaporPressure (defaultInputs\<lparr> outsideHumidity := 0 \<rparr>) = Fin 0
   \<and> Math_log (num_div (Fin 0) (Fin 6.112)) = NInf
   \<and> calculateHvacPerformance (defaultInputs\<lparr> outsideHumidity := 0 \<rparr>) \<noteq> None
   \<and> map_option dewPoint (calculateHvacPerformance (defaultInputs\<lparr> outsideHumidity := 0 \<rparr>))
       = Some NaN"
proof -
  let ?j = "defaultInputs\<lparr> outsideHumidity := 0 \<rparr>"
  obtain r where r: "calculateHvacPerformance ?j = Some r"
    using calculateHvacPerformance_returns by blast
  have c: "- 237 \<le> outsideTemp ?j"
    by (simp add: defaultInputs_def)
  have v: "initialVaporPressure ?j = Fin 0"
    unfolding initialVaporPressure_Fin [OF c] by simp
  have "dewPoint r = NaN"
    unfolding dewPoint_eq [OF r] v by (simp add: calculateDewPoint_nonpos)
  then show ?thesis
    using v by (simp add: r)
qed

text \<open>
  The same input in cooling mode (target 5 degrees): \<^verbatim>\<open>targetTemp >= dewPoint\<close> is false
  for the NaN dew point, so the calculator takes the dehumidification branch and reports
  a final humidity of 100 percent for air that holds no water.
\<close>

lemma zero_humidity_cooling_condenses:
  "map_option dewPoint
     (calculateHvacPerformance (defaultInputs\<lparr> outsideHumidity := 0, targetTemp := 5 \<rparr>))
     = Some NaN
   \<and> map_option finalHumidity
     (calculateHvacPerformance (defaultInputs\<lparr> outsideHumidity := 0, targetTemp := 5 \<rparr>))
     = Some (Fin 100)"
proof -
  let ?j = "defaultInputs\<lparr> outsideHumidity := 0, targetTemp := 5 \<rparr>"
  obtain r where r: "calculateHvacPerformance ?j = Some r"
    using calculateHvacPerformance_returns by blast
  have c: "- 237 \<le> outsideTemp ?j"
    by (simp add: defaultInputs_def)
  have v: "initialVaporPressure ?j = Fin 0"
    unfolding initialVaporPressure_Fin [OF c] by simp
  have d: "calculateDewPoint (initialVaporPressure ?j) = NaN"
    unfolding v by (simp add: calculateDewPoint_nonpos)
  have "condensing ?j"
    unfolding condensing_def d by (simp add: defaultInputs_def num_ge_def)
  then have "finalHumidity r = Fin 100"
    by (simp add: finalHumidity_eq [OF r])
  moreover have "dewPoint r = NaN"
    unfolding dewPoint_eq [OF r] by (rule d)
  ultimately show ?thesis
    by (simp add: r)
qed

section \<open>Water-side sizing\<close>

text \<open>
  Claim C5, amended. For every input with \<open>|supplyTemp - returnTemp| > 0\<close>,
  \<open>waterVolumeFlow = (|totalPower| / (4.186 * |supplyTemp - returnTemp|)) * 3600 / 1000\<close>;
  \<open>recommendedPipeDiameter = 1000 * sqrt(4 * ((waterVolumeFlow / 3600) / 1.5) / pi)\<close> unless
  \<open>waterVolumeFlow\<close> is NaN, and then \<open>recommendedPipeDiameter\<close> is positive infinity (the
  code computes the diameter only under \<^verbatim>\<open>isFinite(waterVolumeFlow)\<close>). For every input
  with \<open>supplyTemp = returnTemp\<close> both fields are positive infinity.
\<close>

theorem water_sizing:
  assumes "calculateHvacPerformance i = Some r"
  shows "(0 < \<bar>supplyTemp i - returnTemp i\<bar> \<longrightarrow>
            waterVolumeFlow r =
              num_div (num_mul
                (num_div (Math_abs (totalPower r))
                   (num_mul (Fin 4.186) (Fin \<bar>supplyTemp i - returnTemp i\<bar>)))
                (Fin 3600)) (Fin 1000)
          \<and> (waterVolumeFlow r \<noteq> NaN \<longrightarrow>
               recommendedPipeDiameter r =
                 num_mul (Fin 1000)
                   (Math_sqrt (num_div
                      (num_mul (Fin 4)
                         (num_div (num_div (waterVolumeFlow r) (Fin 3600)) (Fin 1.5)))
                      (Fin pi))))
          \<and> (waterVolumeFlow r = NaN \<longrightarrow> recommendedPipeDiameter r = PInf))
       \<and> (supplyTemp i = returnTemp i \<longrightarrow>
            waterVolumeFlow r = PInf \<and> recommendedPipeDiameter r = PInf)"
proof (intro conjI impI)
  assume "0 < \<bar>supplyTemp i - returnTemp i\<bar>"
  then have ne: "supplyTemp i \<noteq> returnTemp i"
    by auto
  show "waterVolumeFlow r =
      num_div (num_mul
        (num_div (Math_abs (totalPower r))
           (num_mul (Fin 4.186) (Fin \<bar>supplyTemp i - returnTemp i\<bar>)))
        (Fin 3600)) (Fin 1000)"
    unfolding waterVolumeFlow_eq [OF assms] using ne by simp
  {
    assume "waterVolumeFlow r \<noteq> NaN"
    then show "recommendedPipeDiameter r =
        num_mul (Fin 1000)
          (Math_sqrt (num_div
             (num_mul (Fin 4)
                (num_div (num_div (waterVolumeFlow r) (Fin 3600)) (Fin 1.5)))
             (Fin pi)))"
      using recommendedPipeDiameter_formula [OF assms ne] by (simp only: if_False)
  }
  {
    assume "waterVolumeFlow r = NaN"
    then show "recommendedPipeDiameter r = PInf"
      using recommendedPipeDiameter_formula [OF assms ne] by (simp only: if_True)
  }
next
  assume eq: "supplyTemp i = returnTemp i"
  then show "waterVolumeFlow r = PInf"
    by (simp add: waterVolumeFlow_eq [OF assms])
  show "recommendedPipeDiameter r = PInf"
    using eq by (simp add: recommendedPipeDiameter_eq [OF assms])
qed

text \<open>
  The three cases at concrete inputs: the default input (a finite flow), the default
  input with the return temperature raised to the supply temperature, and the input near
  the pole (the flow is NaN).
\<close>

theorem water_sizing_witness:
  "(\<exists>r. calculateHvacPerformance defaultInputs = Some r
      \<and> 0 < \<bar>supplyTemp defaultInputs - returnTemp defaultInputs\<bar>
      \<and> waterVolumeFlow r \<noteq> NaN
      \<and> recommendedPipeDiameter r =
          num_mul (Fin 1000)
            (Math_sqrt (num_div
               (num_mul (Fin 4)
                  (num_div (num_div (waterVolumeFlow r) (Fin 3600)) (Fin 1.5)))
               (Fin pi))))
   \<and> (\<exists>r. calculateHvacPerformance (defaultInputs\<lparr> returnTemp := 60 \<rparr>) = Some r
      \<and> waterVolumeFlow r = PInf \<and> recommendedPipeDiameter r = PInf)
   \<and> (\<exists>r. calculateHvacPerformance nearPoleInputs = Some r
      \<and> 0 < \<bar>supplyTemp nearPoleInputs - returnTemp nearPoleInputs\<bar>
      \<and> waterVolumeFlow r = NaN \<and> recommendedPipeDiameter r = PInf)"
proof (intro conjI)
  obtain r where r: "calculateHvacPerformance defaultInputs = Some r"
    using calculateHvacPerformance_returns by blast
  have k: "0 < \<bar>supplyTemp defaultInputs - returnTemp defaultInputs\<bar>"
    by (simp add: defaultInputs_def)
  have w: "waterVolumeFlow r \<noteq> NaN"
    using defaultInputs_waterVolumeFlow [OF r] by auto
  from water_sizing [OF r] r k w
  show "\<exists>r. calculateHvacPerformance defaultInputs = Some r
      \<and> 0 < \<bar>supplyTemp defaultInputs - returnTemp defaultInputs\<bar>
      \<and> waterVolumeFlow r \<noteq> NaN
      \<and> recommendedPipeDiameter r =
          num_mul (Fin 1000)
            (Math_sqrt (num_div
               (num_mul (Fin 4)
                  (num_div (num_div (waterVolumeFlow r) (Fin 3600)) (Fin 1.5)))
               (Fin pi)))"
    by blast
next
  let ?j = "defaultInputs\<lparr> returnTemp := 60 \<rparr>"
  obtain r where r: "calculateHvacPerformance ?j = Some r"
    using calculateHvacPerformance_returns by blast
  have "supplyTemp ?j = returnTemp ?j"
    by (simp add: defaultInputs_def)
  with water_sizing [OF r] r
  show "\<exists>r. calculateHvacPerformance ?j = Some r
      \<and> waterVolumeFlow r = PInf \<and> recommendedPipeDiameter r = PInf"
    by blast
next
  obtain r where r: "calculateHvacPerformance nearPoleInputs = Some r"
    using calculateHvacPerformance_returns by blast
  have k: "0 < \<bar>supplyTemp nearPoleInputs - returnTemp nearPoleInputs\<bar>"
    by (simp add: nearPoleInputs_def)
  have w: "waterVolumeFlow r = NaN"
    by (rule nearPoleInputs_water [OF r])
  from water_sizing [OF r] r k w
  show "\<exists>r. calculateHvacPerformance nearPoleInputs = Some r
      \<and> 0 < \<bar>supplyTemp nearPoleInputs - returnTemp nearPoleInputs\<bar>
      \<and> waterVolumeFlow r = NaN \<and> recommendedPipeDiameter r = PInf"
    by blast
qed

text \<open>
  The claim as stated fails at the input near the pole: the spread is 6 degrees, the
  flow is NaN, the formula of the claim gives NaN, and the code returns positive
  infinity.
\<close>

theorem pipe_formula_counterexample:
  "0 < \<bar>supplyTemp nearPoleInputs - returnTemp nearPoleInputs\<bar>
   \<and> map_option waterVolumeFlow (calculateHvacPerformance nearPoleInputs) = Some NaN
   \<and> map_option recommendedPipeDiameter (calculateHvacPerformance nearPoleInputs) = Some PInf
   \<and> num_mul (Fin 1000)
        (Math_sqrt (num_div
           (num_mul (Fin 4) (num_div (num_div NaN (Fin 3600)) (Fin 1.5)))
           (Fin pi))) = NaN
   \<and> PInf \<noteq> NaN"
proof -
  obtain r where r: "calculateHvacPerformance nearPoleInputs = Some r"
    using calculateHvacPerformance_returns by blast
  have "0 < \<bar>supplyTemp nearPoleInputs - returnTemp nearPoleInputs\<bar>"
    by (simp add: nearPoleInputs_def)
  then show ?thesis
    using nearPoleInputs_water [OF r] by (simp add: r)
qed




end
